theory Spec2Isabelle
  imports Complex_Main
begin

section \<open>Values and errors\<close>

text \<open>
  The scalars of peakfitter.py are Python and numpy floats. They are modelled as the
  reals: rounding, overflow and the infinities are outside the model. Where the source
  tests for not-a-number or produces it, the type \<open>pyfloat\<close> adds that value and
  the two infinities.

  Every \<open>raise\<close> of the source, and every exception of a list operation it relies on,
  is a constructor of \<open>error\<close>; a function that can raise returns \<open>error + 'a\<close>.
\<close>

datatype pyfloat = Fin real | PInf | NInf | NaN

datatype error =
    IndexError
  | ResidualParameters "real list" "real list" bool bool bool
  | ReshapeError
  | BroadcastError
  | NotImplementedError
  | MPFitError string
  | SolverStatusError string
  | SomethingIsNan
  | TypeError
  | ZeroDivisionError

text \<open>
  \<open>ResidualParameters rest old circle rotate vheight\<close> is the \<open>ValueError\<close> of the
  decoders: its message is built from \<open>str(inpars)\<close> (the values left over),
  \<open>str(inpars_old)\<close> (the vector as passed) and the three flags as they stand at
  the \<open>raise\<close>.
\<close>

definition bind_err :: "error + 'a \<Rightarrow> ('a \<Rightarrow> error + 'b) \<Rightarrow> error + 'b" where
  "bind_err m f = (case m of Inl e \<Rightarrow> Inl e | Inr x \<Rightarrow> f x)"

text \<open>\<open>inpars.pop(0)\<close>: raises \<open>IndexError\<close> on the empty list.\<close>

fun pop0 :: "real list \<Rightarrow> error + (real \<times> real list)" where
  "pop0 [] = Inl IndexError"
| "pop0 (x # xs) = Inr (x, xs)"

section \<open>Parameter codec\<close>

text \<open>
  The local variables that both decoders bind once the vector is decoded.
  \<open>rotate_on\<close> is the local \<open>rotate\<close> after \<open>rotate = 0\<close> of the circle branch;
  \<open>rota\<close> is in radians and is only bound in the source when \<open>rotate_on\<close> holds
  (the model stores 0 otherwise). \<open>twodpeak\<close> (and \<open>twodpeak_onedfunc\<close>, whose
  decoding lines 85-116 are the same text as lines 177-208) binds \<open>amplitude\<close> as
  well, \<open>mm_laguerregauss_2d\<close> the array \<open>amps\<close>, kept flat in row-major order.
\<close>

record beam_fields =
  height :: real
  center_x :: real
  center_y :: real
  width_x :: real
  width_y :: real
  rotate_on :: bool
  rota :: real
  rcen_x :: real
  rcen_y :: real

record peak_fields = beam_fields +
  amplitude :: real

record mm_fields = beam_fields +
  amps :: "real list"

text \<open>Lines 188-196 (and 288-296): one shared width or two, and the circle override.\<close>

definition pop_widths :: "bool \<Rightarrow> bool \<Rightarrow> real list \<Rightarrow> error + (real \<times> real \<times> bool \<times> real list)" where
  "pop_widths circle rotate_flag l =
     (if circle then
        bind_err (pop0 l) (\<lambda>(width, l1). Inr (width, width, False, l1))
      else
        bind_err (pop0 l) (\<lambda>(wx, l1).
        bind_err (pop0 l1) (\<lambda>(wy, l2). Inr (wx, wy, rotate_flag, l2))))"

text \<open>Lines 197-204 (and 297-304): the angle in degrees, and the pre-rotated centre.\<close>

definition pop_rotation :: "bool \<Rightarrow> real \<Rightarrow> real \<Rightarrow> real list \<Rightarrow> error + (real \<times> real \<times> real \<times> real list)" where
  "pop_rotation rotate_flag cx cy l =
     (if rotate_flag then
        bind_err (pop0 l) (\<lambda>(r, l1).
          let ra = pi / 180 * r in
          Inr (ra, cx * cos ra - cy * sin ra, cx * sin ra + cy * cos ra, l1))
      else Inr (0, cx, cy, l))"

definition twodpeak_decode :: "real list \<Rightarrow> bool \<Rightarrow> bool \<Rightarrow> bool \<Rightarrow> error + peak_fields" where
  "twodpeak_decode inpars circle rotate_flag vheight =
     bind_err (if vheight then pop0 inpars else Inr (0, inpars)) (\<lambda>(h, l1).
     bind_err (pop0 l1) (\<lambda>(a, l2).
     bind_err (pop0 l2) (\<lambda>(cy, l3).
     bind_err (pop0 l3) (\<lambda>(cx, l4).
     bind_err (pop_widths circle rotate_flag l4) (\<lambda>(wx, wy, rot', l5).
     bind_err (pop_rotation rot' cx cy l5) (\<lambda>(ra, rx, ry, l6).
       if length l6 > 0 then Inl (ResidualParameters l6 inpars circle rot' vheight)
       else Inr \<lparr>height = h, center_x = cx, center_y = cy,
                 width_x = wx, width_y = wy, rotate_on = rot', rota = ra,
                 rcen_x = rx, rcen_y = ry, amplitude = a\<rparr>))))))"

text \<open>
  \<open>mm_laguerregauss_2d\<close>, lines 266-309. The mode amplitudes are the last \<open>amplen\<close>
  values; \<open>inpars[-amplen:]\<close> is the whole list when it is shorter than \<open>amplen\<close>, and
  \<open>np.reshape\<close> raises when \<open>max_l\<close> is not 0 and the slice has not \<open>amplen\<close>
  elements. \<open>max_p\<close> and \<open>max_l\<close> are the highest mode numbers, hence naturals.
\<close>

definition amplen_of :: "nat \<Rightarrow> nat \<Rightarrow> nat" where
  "amplen_of max_p max_l = (if max_l = 0 then max_p + 1 else (max_p + 1) * (max_l + 1))"

definition mm_decode :: "real list \<Rightarrow> nat \<Rightarrow> nat \<Rightarrow> bool \<Rightarrow> bool \<Rightarrow> bool \<Rightarrow> error + mm_fields" where
  "mm_decode inpars max_p max_l circle rotate_flag vheight =
     (let amplen = amplen_of max_p max_l;
          ampl = drop (length inpars - amplen) inpars;
          l0 = take (length inpars - amplen) inpars
      in
      if max_l \<noteq> 0 \<and> length ampl \<noteq> amplen then Inl ReshapeError
      else
     bind_err (if vheight then pop0 l0 else Inr (0, l0)) (\<lambda>(h, l1).
     bind_err (pop0 l1) (\<lambda>(cx, l2).
     bind_err (pop0 l2) (\<lambda>(cy, l3).
     bind_err (pop_widths circle rotate_flag l3) (\<lambda>(wx, wy, rot', l4).
     bind_err (pop_rotation rot' cx cy l4) (\<lambda>(ra, rx, ry, l5).
       if length l5 > 0 then Inl (ResidualParameters l5 inpars circle rot' vheight)
       else Inr \<lparr>height = h, center_x = cx, center_y = cy,
                 width_x = wx, width_y = wy, rotate_on = rot', rota = ra,
                 rcen_x = rx, rcen_y = ry, amps = ampl\<rparr>))))))"

text \<open>
  How many scalars each decoder pops from the front of its working copy, as a function
  of the flags: the optional height, the fixed fields, one or two widths, and the angle
  when rotation is on and \<open>circle\<close> has not switched it off.
\<close>

definition nfields :: "bool \<Rightarrow> bool \<Rightarrow> bool \<Rightarrow> nat" where
  "nfields circle rotate_flag vheight =
     (if vheight then 1 else 0) + 3 + (if circle then 1 else 2)
       + (if rotate_flag \<and> \<not> circle then 1 else 0)"

definition mm_nfields :: "bool \<Rightarrow> bool \<Rightarrow> bool \<Rightarrow> nat" where
  "mm_nfields circle rotate_flag vheight =
     (if vheight then 1 else 0) + 2 + (if circle then 1 else 2)
       + (if rotate_flag \<and> \<not> circle then 1 else 0)"

section \<open>Peak model evaluators\<close>

text \<open>
  A peak shape is a numpy ufunc: it is applied to the coordinate arrays element by
  element, so the model applies it to one coordinate pair at a time. \<open>np.indices(shape)\<close>
  supplies the row index as \<open>x\<close> and the column index as \<open>y\<close>.
\<close>

type_synonym peakfunc1d = "real \<Rightarrow> real \<Rightarrow> real"
type_synonym peakfunc2d = "real \<Rightarrow> real \<Rightarrow> real \<Rightarrow> real \<Rightarrow> real"
type_synonym surface = "real \<Rightarrow> real \<Rightarrow> real"

definition rot_coords :: "'a beam_fields_scheme \<Rightarrow> real \<Rightarrow> real \<Rightarrow> real \<times> real" where
  "rot_coords d x y =
     (if rotate_on d
      then (x * cos (rota d) - y * sin (rota d), x * sin (rota d) + y * cos (rota d))
      else (x, y))"

text \<open>The closure \<open>rotpeak\<close> of \<open>twodpeak\<close>, lines 210-218.\<close>

definition rotpeak :: "peakfunc2d \<Rightarrow> peak_fields \<Rightarrow> surface" where
  "rotpeak peakfunc d x y =
     (case rot_coords d x y of (xp, yp) \<Rightarrow>
        height d + amplitude d * peakfunc (xp - rcen_x d) (yp - rcen_y d) (width_x d) (width_y d))"

text \<open>The closure \<open>rotpeak\<close> of \<open>twodpeak_onedfunc\<close>, lines 118-126.\<close>

definition rotpeak_onedfunc :: "peakfunc1d \<Rightarrow> peak_fields \<Rightarrow> surface" where
  "rotpeak_onedfunc peakfunc d x y =
     (case rot_coords d x y of (xp, yp) \<Rightarrow>
        height d + amplitude d * peakfunc (xp - rcen_x d) (width_x d)
                               * peakfunc (yp - rcen_y d) (width_y d))"

definition on_indices :: "nat \<Rightarrow> nat \<Rightarrow> surface \<Rightarrow> real list list" where
  "on_indices rows cols g = map (\<lambda>i. map (\<lambda>j. g (real i) (real j)) [0..<cols]) [0..<rows]"

text \<open>
  \<open>twodpeak\<close> and \<open>twodpeak_onedfunc\<close> with \<open>shape=None\<close> return the closure; with a
  shape they return the closure evaluated on the index grid (the \<open>_image\<close> variants).
\<close>

definition twodpeak :: "peakfunc2d \<Rightarrow> real list \<Rightarrow> bool \<Rightarrow> bool \<Rightarrow> bool \<Rightarrow> error + surface" where
  "twodpeak peakfunc inpars circle rotate_flag vheight =
     bind_err (twodpeak_decode inpars circle rotate_flag vheight) (\<lambda>d. Inr (rotpeak peakfunc d))"

definition twodpeak_image ::
  "peakfunc2d \<Rightarrow> real list \<Rightarrow> bool \<Rightarrow> bool \<Rightarrow> bool \<Rightarrow> nat \<times> nat \<Rightarrow> error + real list list" where
  "twodpeak_image peakfunc inpars circle rotate_flag vheight shape =
     bind_err (twodpeak peakfunc inpars circle rotate_flag vheight)
       (\<lambda>g. Inr (on_indices (fst shape) (snd shape) g))"

definition twodpeak_onedfunc ::
  "peakfunc1d \<Rightarrow> real list \<Rightarrow> bool \<Rightarrow> bool \<Rightarrow> bool \<Rightarrow> error + surface" where
  "twodpeak_onedfunc peakfunc inpars circle rotate_flag vheight =
     bind_err (twodpeak_decode inpars circle rotate_flag vheight)
       (\<lambda>d. Inr (rotpeak_onedfunc peakfunc d))"

text \<open>
  \<open>laguerre_gauss2d\<close>, lines 348-355. \<open>genlaguerre\<close> is scipy's: it is a parameter.
  The mode numbers are naturals, so \<open>abs(l)\<close> is \<open>l\<close>; \<open>np.arctan2(y, x)\<close> is the
  argument of \<open>x + iy\<close>, and \<open>np.exp(-1j*l*phi)\<close> is \<open>cis (- l * phi)\<close>.
\<close>

type_synonym genlaguerre_fn = "nat \<Rightarrow> nat \<Rightarrow> real \<Rightarrow> real"

definition laguerre_gauss2d :: "genlaguerre_fn \<Rightarrow> real \<Rightarrow> real \<Rightarrow> nat \<Rightarrow> nat \<Rightarrow> complex" where
  "laguerre_gauss2d genlaguerre x y p l =
     (let r = sqrt (x ^ 2 + y ^ 2);
          phi = Arg (Complex x y);
          c_lp = sqrt (2 * fact p / (pi * fact (p + l)));
          l_lp = genlaguerre p l (2 * r ^ 2)
      in of_real (c_lp * l_lp * (r * sqrt 2) ^ l * exp (- (r ^ 2))) * cis (- (real l * phi)))"

text \<open>\<open>itertools.product(range(max_p+1), range(max_l+1))\<close>: the mode indices, row-major.\<close>

definition modenum :: "nat \<Rightarrow> nat \<Rightarrow> (nat \<times> nat) list" where
  "modenum max_p max_l = List.product [0..<max_p + 1] [0..<max_l + 1]"

text \<open>
  The closure \<open>rotpeak\<close> of \<open>mm_laguerregauss_2d\<close>, lines 311-328. After a decode that
  succeeded \<open>amps\<close> has exactly \<open>amplen\<close> entries, so \<open>amps[p]\<close> and \<open>amps[p,l]\<close> are
  both entry \<open>p * (max_l + 1) + l\<close> of the flat list. A zero width divides by zero in
  numpy (it gives an infinity or not-a-number): that case is outside the model.
\<close>

definition mm_rotpeak :: "genlaguerre_fn \<Rightarrow> nat \<Rightarrow> nat \<Rightarrow> mm_fields \<Rightarrow> surface" where
  "mm_rotpeak genlaguerre max_p max_l d x y =
     (let xp = (if rotate_on d
                then ((x * cos (rota d) - y * sin (rota d)) - rcen_x d) / width_x d
                else x / width_x d);
          yp = (if rotate_on d
                then ((x * sin (rota d) + y * cos (rota d)) - rcen_y d) / width_y d
                else y / width_y d);
          g = fold (\<lambda>(p, l) acc.
                      acc + of_real (amps d ! (p * (max_l + 1) + l))
                            * laguerre_gauss2d genlaguerre xp yp p l)
                   (modenum max_p max_l) (of_real (height d))
      in (cmod g) ^ 2)"

definition mm_laguerregauss_2d ::
  "genlaguerre_fn \<Rightarrow> real list \<Rightarrow> nat \<Rightarrow> nat \<Rightarrow> bool \<Rightarrow> bool \<Rightarrow> bool \<Rightarrow> error + surface" where
  "mm_laguerregauss_2d genlaguerre inpars max_p max_l circle rotate_flag vheight =
     bind_err (mm_decode inpars max_p max_l circle rotate_flag vheight)
       (\<lambda>d. Inr (mm_rotpeak genlaguerre max_p max_l d))"

section \<open>Masked data and the residual\<close>

text \<open>
  A two-dimensional masked array is a list of rows of cells; a cell is its stored value
  and its mask bit (\<open>True\<close>: masked). An unmasked array has every bit \<open>False\<close>.
  The error array is \<open>None\<close> (then the scalar 1.0 is used) or an array of the data's
  shape, as the docstring asks; another shape is a broadcast failure in the model.

  \<open>data - model\<close> keeps the mask of \<open>data\<close>. The division is numpy.ma's true_divide,
  which also masks every cell whose divisor is zero or negligible against the
  numerator (\<open>abs(a) * tiny >= abs(b)\<close>, with \<open>tiny\<close> the smallest normal double).
  \<open>compressed()\<close> keeps the values of the unmasked cells, row by row.
\<close>

type_synonym cell = "real \<times> bool"
type_synonym marray = "cell list list"

definition shape_of :: "'a list list \<Rightarrow> nat list" where
  "shape_of a = map length a"

definition ncols :: "'a list list \<Rightarrow> nat" where
  "ncols a = (case a of [] \<Rightarrow> 0 | r # _ \<Rightarrow> length r)"

definition float_tiny :: real where
  "float_tiny = 1 / 2 ^ 1022"

definition ma_sub :: "marray \<Rightarrow> real list list \<Rightarrow> marray" where
  "ma_sub d model =
     map (\<lambda>(drow, mrow). map (\<lambda>(c, g). (fst c - g, snd c)) (zip drow mrow)) (zip d model)"

definition ma_div_cell :: "cell \<Rightarrow> real \<Rightarrow> cell" where
  "ma_div_cell c e = (fst c / e, snd c \<or> \<bar>e\<bar> \<le> \<bar>fst c\<bar> * float_tiny)"

definition ma_div :: "marray \<Rightarrow> real list list option \<Rightarrow> error + marray" where
  "ma_div a err =
     (case err of
        None \<Rightarrow> Inr (map (map (\<lambda>c. ma_div_cell c 1)) a)
      | Some e \<Rightarrow>
          if shape_of e = shape_of a
          then Inr (map (\<lambda>(arow, erow). map (\<lambda>(c, x). ma_div_cell c x) (zip arow erow)) (zip a e))
          else Inl BroadcastError)"

definition compressed :: "marray \<Rightarrow> real list" where
  "compressed a = map fst (filter (\<lambda>c. \<not> snd c) (concat a))"

text \<open>
  What the residual function returns is \<open>[0, delta.compressed()]\<close>: a status and the
  residual vector. The body shared by both fit drivers, lines 474-475 and 627-628.
\<close>

type_synonym residual_fn = "real list \<Rightarrow> error + (int \<times> real list)"

definition residual_of :: "marray \<Rightarrow> real list list option \<Rightarrow> surface \<Rightarrow> error + (int \<times> real list)" where
  "residual_of d err twodp =
     bind_err (ma_div (ma_sub d (on_indices (length d) (ncols d) twodp)) err)
       (\<lambda>delta. Inr (0, compressed delta))"

text \<open>\<open>mpfitfun(data, err)\<close> of \<open>peakfit\<close>, lines 624-629.\<close>

definition mpfitfun ::
  "peakfunc2d \<Rightarrow> bool \<Rightarrow> bool \<Rightarrow> bool \<Rightarrow> marray \<Rightarrow> real list list option \<Rightarrow> residual_fn" where
  "mpfitfun peakfunc circle rotate_flag vheight d err p =
     bind_err (twodpeak peakfunc p circle rotate_flag vheight) (residual_of d err)"

text \<open>\<open>mpfitfun(data, err)\<close> of \<open>mm_laguerregauss2d_fit\<close>, lines 471-476.\<close>

definition mm_mpfitfun ::
  "genlaguerre_fn \<Rightarrow> nat \<Rightarrow> nat \<Rightarrow> bool \<Rightarrow> bool \<Rightarrow> bool \<Rightarrow> marray \<Rightarrow> real list list option
     \<Rightarrow> residual_fn" where
  "mm_mpfitfun genlaguerre max_p max_l circle rotate_flag vheight d err p =
     bind_err (mm_laguerregauss_2d genlaguerre p max_p max_l circle rotate_flag vheight)
       (residual_of d err)"

section \<open>The solver interface\<close>

text \<open>
  mpfit is imported from a module outside the source at hand; it is a parameter of
  every fit driver. It receives the residual function and the per-parameter records,
  and returns an object of which the drivers read \<open>params\<close>, \<open>perror\<close>, \<open>fnorm\<close>,
  \<open>dof\<close>, \<open>status\<close> and \<open>errmsg\<close>. An exception of the residual function raised while
  the solver runs propagates, so the solver returns \<open>error + mpresult\<close>.

  The drivers divide \<open>mp.fnorm\<close> by \<open>mp.dof\<close>, and what \<open>/\<close> does on a zero
  divisor depends on the run-time kind of the two scalars, which the solver chooses:
  between two plain Python numbers it raises \<open>ZeroDivisionError\<close>; as soon as one of
  them is a numpy scalar (what numpy arithmetic returns) it returns an infinity, or
  not-a-number for 0/0, with a warning and no exception. The source at hand does not
  decide the kind, so the solver's object carries it as \<open>mp_scalars\<close>.
\<close>

datatype scalar_kind = PythonScalars | NumpyScalars

datatype parname =
    HEIGHT | AMPLITUDE | XSHIFT | YSHIFT | XWIDTH | YWIDTH | ROTATION | SHIFT | WIDTH
  | MODEAMP "nat \<times> nat"
  | Suffixed parname nat

text \<open>
  \<open>MODEAMP (p, l)\<close> is the name \<open>f"MODEAMP {modenum[i]}"\<close>; \<open>Suffixed nm k\<close> is the
  name \<open>parnames[ii % 3] + str(ii % 3)\<close> of the multi-peak driver.
\<close>

record parinfo =
  p_n :: nat
  p_value :: real
  p_limits :: "real \<times> real"
  p_limited :: "bool \<times> bool"
  p_fixed :: bool
  p_parname :: parname
  p_error :: real

record mpresult =
  mp_params :: "real list"
  mp_perror :: "real list"
  mp_fnorm :: real
  mp_dof :: int
  mp_status :: int
  mp_errmsg :: string
  mp_scalars :: scalar_kind

type_synonym solver = "residual_fn \<Rightarrow> parinfo list \<Rightarrow> error + mpresult"

text \<open>The solver object after the drivers have set \<open>mp.chi2\<close> and \<open>mp.chi2n\<close> on it.\<close>

record mpfit_obj = mpresult +
  chi2 :: real
  chi2n :: pyfloat

text \<open>
  \<open>moments\<close> is imported from the gaussfitter module, outside the source at hand: a
  parameter too. It is called as \<open>moments(data, circle, rotate, vheight)\<close> and returns
  a list of floats.
\<close>

type_synonym moments_fn = "marray \<Rightarrow> bool \<Rightarrow> bool \<Rightarrow> bool \<Rightarrow> error + real list"

section \<open>Bounded fit driver\<close>

text \<open>
  The keyword arguments of \<open>peakfit\<close> and \<open>mm_laguerregauss2d_fit\<close>. \<open>quiet\<close> and the
  extra keywords passed on to \<open>moments\<close> do not reach the model.
\<close>

record fit_args =
  a_err :: "real list list option"
  a_params :: "real list"
  a_autoderiv :: bool
  a_return_error :: bool
  a_circle :: bool
  a_fixed :: "bool list"
  a_limitedmin :: "bool list"
  a_limitedmax :: "bool list"
  a_usemoment :: "bool list"
  a_minpars :: "real list"
  a_maxpars :: "real list"
  a_rotate :: bool
  a_vheight :: bool
  a_returnmp :: bool
  a_returnfitimage :: bool

text \<open>The additional keyword arguments of \<open>mm_laguerregauss2d_fit\<close>.\<close>

record mm_fit_args = fit_args +
  a_max_p :: nat
  a_max_l :: nat
  a_minamp :: real
  a_maxamp :: real
  a_limitedampmin :: bool
  a_limitedampmax :: bool

text \<open>
  \<open>params[usemoment] = moment[usemoment]\<close>, reached only when \<open>params\<close> and
  \<open>usemoment\<close> have the same length: the boolean index on \<open>moment\<close> raises when
  \<open>moment\<close> has another length; otherwise the selected entries are replaced.
\<close>

definition mask_assign :: "real list \<Rightarrow> bool list \<Rightarrow> real list \<Rightarrow> error + real list" where
  "mask_assign params usemoment moment =
     (if length moment \<noteq> length usemoment then Inl IndexError
      else Inr (map (\<lambda>(p, u, m). if u then m else p) (zip params (zip usemoment moment))))"

text \<open>Lines 604-608 of \<open>peakfit\<close>.\<close>

definition initial_params :: "moments_fn \<Rightarrow> marray \<Rightarrow> 'a fit_args_scheme \<Rightarrow> error + real list" where
  "initial_params moments d a =
     (if list_ex id (a_usemoment a) \<and> length (a_params a) = length (a_usemoment a) then
        bind_err (moments d (a_circle a) (a_rotate a) (a_vheight a))
          (\<lambda>moment. mask_assign (a_params a) (a_usemoment a) moment)
      else if length (a_params a) = 0 then
        moments d (a_circle a) (a_rotate a) (a_vheight a)
      else Inr (a_params a))"

text \<open>
  Lines 609-614 (and 450-455): without \<open>vheight\<close> a zero height is put in front and
  \<open>fixed[0] = 1\<close> is stored, which raises on an empty \<open>fixed\<close>.
\<close>

definition force_vheight :: "bool \<Rightarrow> real list \<Rightarrow> bool list \<Rightarrow> error + (real list \<times> bool list)" where
  "force_vheight vheight params fixed =
     (if vheight then Inr (params, fixed)
      else if fixed = [] then Inl IndexError
      else Inr (0 # params, fixed[0 := True]))"

text \<open>
  Lines 617-619 (and 458-460), one turn of the loop: \<open>maxpars[i]\<close> is read first,
  \<open>limitedmax[i]\<close> only when the value exceeds it, then the same for the lower limit
  on the value as it stands.
\<close>

definition clamp_upper :: "real \<Rightarrow> nat \<Rightarrow> real list \<Rightarrow> bool list \<Rightarrow> error + real" where
  "clamp_upper v i maxpars limitedmax =
     (if length maxpars \<le> i then Inl IndexError
      else if v > maxpars ! i then
        (if length limitedmax \<le> i then Inl IndexError
         else Inr (if limitedmax ! i then maxpars ! i else v))
      else Inr v)"

definition clamp_lower :: "real \<Rightarrow> nat \<Rightarrow> real list \<Rightarrow> bool list \<Rightarrow> error + real" where
  "clamp_lower v i minpars limitedmin =
     (if length minpars \<le> i then Inl IndexError
      else if v < minpars ! i then
        (if length limitedmin \<le> i then Inl IndexError
         else Inr (if limitedmin ! i then minpars ! i else v))
      else Inr v)"

fun clamp_from ::
  "nat \<Rightarrow> real list \<Rightarrow> real list \<Rightarrow> bool list \<Rightarrow> real list \<Rightarrow> bool list \<Rightarrow> error + real list" where
  "clamp_from i [] minpars limitedmin maxpars limitedmax = Inr []"
| "clamp_from i (v # vs) minpars limitedmin maxpars limitedmax =
     bind_err (clamp_upper v i maxpars limitedmax) (\<lambda>v1.
     bind_err (clamp_lower v1 i minpars limitedmin) (\<lambda>v2.
     bind_err (clamp_from (Suc i) vs minpars limitedmin maxpars limitedmax) (\<lambda>vs'.
       Inr (v2 # vs'))))"

text \<open>
  One record of \<open>parinfo\<close> built from entry \<open>i\<close> of every list; any list too short
  raises \<open>IndexError\<close>.
\<close>

definition mk_parinfo ::
  "real list \<Rightarrow> real list \<Rightarrow> real list \<Rightarrow> bool list \<Rightarrow> bool list \<Rightarrow> bool list
     \<Rightarrow> nat \<times> parname \<Rightarrow> error + parinfo" where
  "mk_parinfo params minpars maxpars limitedmin limitedmax fixed e =
     (case e of (i, nm) \<Rightarrow>
        if i < length params \<and> i < length minpars \<and> i < length maxpars
           \<and> i < length limitedmin \<and> i < length limitedmax \<and> i < length fixed
        then Inr \<lparr>p_n = i, p_value = params ! i, p_limits = (minpars ! i, maxpars ! i),
                  p_limited = (limitedmin ! i, limitedmax ! i), p_fixed = fixed ! i,
                  p_parname = nm, p_error = 0\<rparr>
        else Inl IndexError)"

fun collect_err :: "(error + 'a) list \<Rightarrow> error + 'a list" where
  "collect_err [] = Inr []"
| "collect_err (r # rs) =
     bind_err r (\<lambda>x. bind_err (collect_err rs) (\<lambda>xs. Inr (x # xs)))"

text \<open>
  Lines 631-654: the records in their final order, HEIGHT inserted in front when
  \<open>vheight\<close> holds. Every failure here is the same \<open>IndexError\<close>, so the order in
  which the source builds the records does not show.
\<close>

definition peakfit_layout :: "bool \<Rightarrow> bool \<Rightarrow> bool \<Rightarrow> (nat \<times> parname) list" where
  "peakfit_layout circle rotate_flag vheight =
     (if vheight then [(0, HEIGHT)] else [])
     @ [(1, AMPLITUDE), (2, XSHIFT), (3, YSHIFT), (4, XWIDTH)]
     @ (if circle then [] else (5, YWIDTH) # (if rotate_flag then [(6, ROTATION)] else []))"

text \<open>Python's \<open>%\<close> on floats with a positive modulus: the result has the sign of the modulus.\<close>

definition py_mod :: "real \<Rightarrow> real \<Rightarrow> real" where
  "py_mod x m = x - m * of_int \<lfloor>x / m\<rfloor>"

text \<open>\<open>mp.params[-1] %= 180.0\<close>: raises on an empty array.\<close>

definition wrap_last :: "real list \<Rightarrow> error + real list" where
  "wrap_last ps = (if ps = [] then Inl IndexError else Inr (butlast ps @ [py_mod (last ps) 180]))"

text \<open>
  \<open>mp.fnorm/mp.dof\<close> for each kind of scalars: the quotient for a non-zero divisor;
  on a zero divisor \<open>ZeroDivisionError\<close> between Python numbers, and numpy's result
  (not-a-number for 0/0, else the infinity of the numerator's sign) otherwise.
\<close>

definition py_truediv :: "scalar_kind \<Rightarrow> real \<Rightarrow> int \<Rightarrow> error + pyfloat" where
  "py_truediv kind x k =
     (if k = 0 then
        (case kind of
           PythonScalars \<Rightarrow> Inl ZeroDivisionError
         | NumpyScalars \<Rightarrow> Inr (if x = 0 then NaN else if 0 < x then PInf else NInf))
      else Inr (Fin (x / of_int k)))"

text \<open>
  Lines 673-677 (and 519-523): the \<open>try\<close> around the division; the handler turns
  exactly \<open>ZeroDivisionError\<close> into \<open>np.nan\<close>.
\<close>

definition chi2n_of :: "scalar_kind \<Rightarrow> real \<Rightarrow> int \<Rightarrow> error + pyfloat" where
  "chi2n_of kind fnorm dof =
     (case py_truediv kind fnorm dof of
        Inr q \<Rightarrow> Inr q
      | Inl e \<Rightarrow> if e = ZeroDivisionError then Inr NaN else Inl e)"

text \<open>Lines 667-677 (and 513-523): what both drivers do with the solver's object.\<close>

definition postprocess :: "bool \<Rightarrow> bool \<Rightarrow> mpresult \<Rightarrow> error + mpfit_obj" where
  "postprocess circle rotate_flag mp =
     (if mp_errmsg mp \<noteq> [] then Inl (MPFitError (mp_errmsg mp))
      else
        bind_err (if \<not> circle \<and> rotate_flag then wrap_last (mp_params mp)
                  else Inr (mp_params mp)) (\<lambda>ps.
        bind_err (chi2n_of (mp_scalars mp) (mp_fnorm mp) (mp_dof mp)) (\<lambda>c2n.
          Inr \<lparr>mp_params = ps, mp_perror = mp_perror mp, mp_fnorm = mp_fnorm mp,
               mp_dof = mp_dof mp, mp_status = mp_status mp, mp_errmsg = mp_errmsg mp,
               mp_scalars = mp_scalars mp,
               chi2 = mp_fnorm mp, chi2n = c2n\<rparr>)))"

text \<open>
  \<open>peakfit\<close> up to line 677: the solver's object as the driver leaves it. After
  line 612 the local \<open>vheight\<close> is always true.
\<close>

definition peakfit_mp ::
  "moments_fn \<Rightarrow> solver \<Rightarrow> peakfunc2d \<Rightarrow> marray \<Rightarrow> fit_args \<Rightarrow> error + mpfit_obj" where
  "peakfit_mp moments mpfit peakfunc d a =
     bind_err (initial_params moments d a) (\<lambda>params0.
     bind_err (force_vheight (a_vheight a) params0 (a_fixed a)) (\<lambda>(params1, fixed1).
     bind_err (clamp_from 0 params1 (a_minpars a) (a_limitedmin a) (a_maxpars a) (a_limitedmax a))
       (\<lambda>params2.
     bind_err (collect_err (map (mk_parinfo params2 (a_minpars a) (a_maxpars a)
                   (a_limitedmin a) (a_limitedmax a) fixed1)
                 (peakfit_layout (a_circle a) (a_rotate a) True))) (\<lambda>pinfo.
       if \<not> a_autoderiv a then Inl NotImplementedError
       else
         bind_err (mpfit (mpfitfun peakfunc (a_circle a) (a_rotate a) True d (a_err a)) pinfo)
           (postprocess (a_circle a) (a_rotate a))))))"

text \<open>Lines 679-688 (and 525-534): the shape of the value returned.\<close>

datatype fit_value =
    ReturnMP mpfit_obj
  | ReturnParamsError "real list" "real list"
  | ReturnParams "real list"

datatype fit_return = Plain fit_value | WithImage fit_value "real list list"

definition fit_value_of :: "bool \<Rightarrow> bool \<Rightarrow> mpfit_obj \<Rightarrow> fit_value" where
  "fit_value_of returnmp return_error mp =
     (if returnmp then ReturnMP mp
      else if return_error then ReturnParamsError (mp_params mp) (mp_perror mp)
      else ReturnParams (mp_params mp))"

definition peakfit ::
  "moments_fn \<Rightarrow> solver \<Rightarrow> peakfunc2d \<Rightarrow> marray \<Rightarrow> fit_args \<Rightarrow> error + fit_return" where
  "peakfit moments mpfit peakfunc d a =
     bind_err (peakfit_mp moments mpfit peakfunc d a) (\<lambda>mp.
       if a_returnfitimage a then
         bind_err (twodpeak peakfunc (mp_params mp) (a_circle a) (a_rotate a) True) (\<lambda>twodp.
           Inr (WithImage (fit_value_of (a_returnmp a) (a_return_error a) mp)
                  (on_indices (length d) (ncols d) twodp)))
       else Inr (Plain (fit_value_of (a_returnmp a) (a_return_error a) mp)))"

section \<open>Multimode fit driver\<close>

text \<open>
  \<open>amps = np.repeat(0, amplen)\<close> is an array of integers: a float stored into it is
  truncated toward zero, both at \<open>amps[0] = moms.pop(1)\<close> and in the clamping loop.
\<close>

definition py_trunc :: "real \<Rightarrow> int" where
  "py_trunc x = (if 0 \<le> x then \<lfloor>x\<rfloor> else \<lceil>x\<rceil>)"

text \<open>\<open>xs.pop(i)\<close> for a non-negative index.\<close>

definition pop_at :: "nat \<Rightarrow> real list \<Rightarrow> error + (real \<times> real list)" where
  "pop_at i xs =
     (if i < length xs then Inr (xs ! i, take i xs @ drop (Suc i) xs) else Inl IndexError)"

text \<open>Lines 425-447: the initial front parameters and the integer amplitude array.\<close>

definition mm_initial_params ::
  "moments_fn \<Rightarrow> marray \<Rightarrow> 'a mm_fit_args_scheme \<Rightarrow> error + (real list \<times> int list)" where
  "mm_initial_params moments d a =
     (let amps0 = replicate ((a_max_p a + 1) * (a_max_l a + 1)) (0 :: int) in
      if list_ex id (a_usemoment a) \<and> length (a_params a) = length (a_usemoment a) then
        bind_err (moments d (a_circle a) (a_rotate a) (a_vheight a)) (\<lambda>moms.
        bind_err (pop_at (if a_vheight a then 1 else 0) moms) (\<lambda>(amp, moment).
        bind_err (mask_assign (a_params a) (a_usemoment a) moment) (\<lambda>params.
          Inr (params, amps0[0 := py_trunc amp]))))
      else if length (a_params a) = 0 then
        bind_err (moments d (a_circle a) (a_rotate a) (a_vheight a)) (\<lambda>moms.
        bind_err (pop_at (if a_vheight a then 1 else 0) moms) (\<lambda>(amp, params).
          Inr (params, amps0[0 := py_trunc amp])))
      else Inr (a_params a, amps0))"

text \<open>Lines 462-464, one turn of the loop.\<close>

definition clamp_amp :: "real \<Rightarrow> real \<Rightarrow> bool \<Rightarrow> bool \<Rightarrow> int \<Rightarrow> int" where
  "clamp_amp minamp maxamp limitedampmin limitedampmax v =
     (let v1 = (if of_int v > maxamp \<and> limitedampmax then py_trunc maxamp else v)
      in if of_int v1 < minamp \<and> limitedampmin then py_trunc minamp else v1)"

text \<open>Lines 478-498: the records of the front parameters, in their final order.\<close>

definition mm_layout :: "bool \<Rightarrow> bool \<Rightarrow> bool \<Rightarrow> (nat \<times> parname) list" where
  "mm_layout circle rotate_flag vheight =
     (if vheight then [(0, HEIGHT)] else [])
     @ [(1, XSHIFT), (2, YSHIFT), (3, XWIDTH)]
     @ (if circle then [] else (4, YWIDTH) # (if rotate_flag then [(5, ROTATION)] else []))"

text \<open>
  Lines 500-504: the record appended for the \<open>i\<close>-th amplitude, where \<open>n\<close> is one more
  than the number of the last front record. Its value is read at \<open>params[n+1]\<close>.
\<close>

definition mm_amp_parinfo ::
  "real list \<Rightarrow> nat \<Rightarrow> 'a mm_fit_args_scheme \<Rightarrow> nat \<Rightarrow> error + parinfo" where
  "mm_amp_parinfo params n a i =
     (if n + 1 < length params
      then Inr \<lparr>p_n = n + i, p_value = params ! (n + 1),
                p_limits = (a_minamp a, a_maxamp a),
                p_limited = (a_limitedampmin a, a_limitedampmax a), p_fixed = False,
                p_parname = MODEAMP (modenum (a_max_p a) (a_max_l a) ! i), p_error = 0\<rparr>
      else Inl IndexError)"

text \<open>Lines 422-504: the parameter vector and the records handed to the solver.\<close>

definition mm_parinfo ::
  "moments_fn \<Rightarrow> marray \<Rightarrow> mm_fit_args \<Rightarrow> error + (real list \<times> parinfo list)" where
  "mm_parinfo moments d a =
     bind_err (mm_initial_params moments d a) (\<lambda>(params0, amps0).
     bind_err (force_vheight (a_vheight a) params0 (a_fixed a)) (\<lambda>(params1, fixed1).
     bind_err (clamp_from 0 params1 (a_minpars a) (a_limitedmin a) (a_maxpars a) (a_limitedmax a))
       (\<lambda>params2.
       let amps1 = map (clamp_amp (a_minamp a) (a_maxamp a)
                          (a_limitedampmin a) (a_limitedampmax a)) amps0;
           params3 = params2 @ map of_int amps1;
           front = mm_layout (a_circle a) (a_rotate a) True;
           n = fst (last front) + 1
       in
       bind_err (collect_err (map (mk_parinfo params3 (a_minpars a) (a_maxpars a)
                     (a_limitedmin a) (a_limitedmax a) fixed1) front)) (\<lambda>pfront.
       bind_err (collect_err (map (mm_amp_parinfo params3 n a) [0..<length amps1])) (\<lambda>pamps.
         Inr (params3, pfront @ pamps))))))"

definition mm_laguerregauss2d_fit_mp ::
  "moments_fn \<Rightarrow> solver \<Rightarrow> genlaguerre_fn \<Rightarrow> marray \<Rightarrow> mm_fit_args \<Rightarrow> error + mpfit_obj" where
  "mm_laguerregauss2d_fit_mp moments mpfit genlaguerre d a =
     bind_err (mm_parinfo moments d a) (\<lambda>(params, pinfo).
       if \<not> a_autoderiv a then Inl NotImplementedError
       else
         bind_err (mpfit (mm_mpfitfun genlaguerre (a_max_p a) (a_max_l a)
                            (a_circle a) (a_rotate a) True d (a_err a)) pinfo)
           (postprocess (a_circle a) (a_rotate a)))"

definition mm_laguerregauss2d_fit ::
  "moments_fn \<Rightarrow> solver \<Rightarrow> genlaguerre_fn \<Rightarrow> marray \<Rightarrow> mm_fit_args \<Rightarrow> error + fit_return" where
  "mm_laguerregauss2d_fit moments mpfit genlaguerre d a =
     bind_err (mm_laguerregauss2d_fit_mp moments mpfit genlaguerre d a) (\<lambda>mp.
       if a_returnfitimage a then
         bind_err (mm_laguerregauss_2d genlaguerre (mp_params mp) (a_max_p a) (a_max_l a)
                     (a_circle a) (a_rotate a) True) (\<lambda>twodp.
           Inr (WithImage (fit_value_of (a_returnmp a) (a_return_error a) mp)
                  (on_indices (length d) (ncols d) twodp)))
       else Inr (Plain (fit_value_of (a_returnmp a) (a_return_error a) mp)))"

section \<open>Multi-peak driver\<close>

text \<open>
  The six configuration lists of \<open>multipeakfit\<close> hold numbers or booleans, and the
  normalising loop compares them with \<open>==\<close>, under which \<open>True == 1\<close> and
  \<open>False == 0\<close>. The lists are Python lists, distinct objects, that the loop
  changes in place: the model passes the six of them along, each step seeing the
  lists as the earlier steps left them. \<open>npeak\<close> is a count, hence a natural.
\<close>

datatype pyval = PyBool bool | PyNum real

fun py_eq :: "pyval \<Rightarrow> pyval \<Rightarrow> bool" where
  "py_eq (PyBool a) (PyBool b) = (a = b)"
| "py_eq (PyNum x) (PyNum y) = (x = y)"
| "py_eq (PyBool a) (PyNum y) = (of_bool a = y)"
| "py_eq (PyNum x) (PyBool b) = (x = of_bool b)"

definition py_list_eq :: "pyval list \<Rightarrow> pyval list \<Rightarrow> bool" where
  "py_list_eq xs ys = list_all2 py_eq xs ys"



record peak_lists =
  l_params :: "pyval list"
  l_fixed :: "pyval list"
  l_limitedmin :: "pyval list"
  l_limitedmax :: "pyval list"
  l_minpars :: "pyval list"
  l_maxpars :: "pyval list"


definition py_times :: "nat \<Rightarrow> 'a list \<Rightarrow> 'a list" where
  "py_times k xs = concat (replicate k xs)"

text \<open>
  Lines 929-941, the body of the loop for one \<open>parlist\<close>, given the six lists as they
  stand: the new content of \<open>parlist\<close>.
\<close>

definition normalized :: "peak_lists \<Rightarrow> nat \<Rightarrow> pyval list \<Rightarrow> pyval list" where
  "normalized st npeak parlist =
     (if length parlist \<noteq> 3 * npeak then
        (if length parlist = 3 then py_times npeak parlist
         else if py_list_eq parlist (l_params st) then py_times npeak [PyNum 1, PyNum 0, PyNum 1]
         else if py_list_eq parlist (l_fixed st) \<or> py_list_eq parlist (l_limitedmax st)
           then py_times npeak [PyBool False, PyBool False, PyBool False]
         else if py_list_eq parlist (l_limitedmin st)
           then py_times npeak [PyBool False, PyBool False, PyBool True]
         else if py_list_eq parlist (l_minpars st) \<or> py_list_eq parlist (l_maxpars st)
           then py_times npeak [PyNum 0, PyNum 0, PyNum 0]
         else parlist)
      else parlist)"

text \<open>Line 928: the loop, over the six lists in the order of the tuple.\<close>

definition normalize_lists :: "peak_lists \<Rightarrow> nat \<Rightarrow> peak_lists" where
  "normalize_lists st0 npeak =
     (let st1 = st0\<lparr>l_params := normalized st0 npeak (l_params st0)\<rparr>;
          st2 = st1\<lparr>l_fixed := normalized st1 npeak (l_fixed st1)\<rparr>;
          st3 = st2\<lparr>l_limitedmin := normalized st2 npeak (l_limitedmin st2)\<rparr>;
          st4 = st3\<lparr>l_limitedmax := normalized st3 npeak (l_limitedmax st3)\<rparr>;
          st5 = st4\<lparr>l_minpars := normalized st4 npeak (l_minpars st4)\<rparr>
      in st5\<lparr>l_maxpars := normalized st5 npeak (l_maxpars st5)\<rparr>)"







section \<open>One-dimensional peak and its fit driver\<close>

text \<open>
  \<open>onedpeak\<close> is called with its arguments in two different orders, so the values it
  receives are modelled with their run-time kind: a float, a one-dimensional array or
  a peak shape. Arithmetic on a callable, and a call of something that is not
  callable, raise \<open>TypeError\<close>; so does a call with the wrong number of arguments.
\<close>

datatype pyobj = Num real | Arr "real list" | Fun peakfunc1d

fun py_arith :: "(real \<Rightarrow> real \<Rightarrow> real) \<Rightarrow> pyobj \<Rightarrow> pyobj \<Rightarrow> error + pyobj" where
  "py_arith f (Num a) (Num b) = Inr (Num (f a b))"
| "py_arith f (Arr a) (Num b) = Inr (Arr (map (\<lambda>x. f x b) a))"
| "py_arith f (Num a) (Arr b) = Inr (Arr (map (f a) b))"
| "py_arith f (Arr a) (Arr b) =
     (if length a = length b then Inr (Arr (map (\<lambda>(x, y). f x y) (zip a b)))
      else Inl BroadcastError)"
| "py_arith f (Fun g) b = Inl TypeError"
| "py_arith f a (Fun g) = Inl TypeError"

fun py_call :: "pyobj \<Rightarrow> pyobj \<Rightarrow> pyobj \<Rightarrow> error + pyobj" where
  "py_call (Fun f) a b = py_arith f a b"
| "py_call (Num c) a b = Inl TypeError"
| "py_call (Arr c) a b = Inl TypeError"

text \<open>
  \<open>onedpeak(peakfunc, x, H, A, dx, w)\<close>, lines 741-746, applied to a list of
  positional arguments: \<open>H+A*peakfunc((x-dx), w)\<close>.
\<close>

fun onedpeak :: "pyobj list \<Rightarrow> error + pyobj" where
  "onedpeak [peakfunc, x, H, A, dx, w] =
     bind_err (py_arith (-) x dx) (\<lambda>d.
     bind_err (py_call peakfunc d w) (\<lambda>c.
     bind_err (py_arith (*) A c) (\<lambda>m. py_arith (+) H m)))"
| "onedpeak args = Inl TypeError"

text \<open>
  \<open>mpfitfun(peakfunc, x, y, err)\<close> of \<open>onedpeakfit\<close>, lines 790-795: the residual
  function calls \<open>onedpeak(x, *p, peakfunc)\<close>.
\<close>

definition onedpeakfit_mpfitfun ::
  "peakfunc1d \<Rightarrow> real list \<Rightarrow> real list \<Rightarrow> real list option \<Rightarrow> real list
     \<Rightarrow> error + (int \<times> pyobj)" where
  "onedpeakfit_mpfitfun peakfunc x y err p =
     bind_err (onedpeak ([Arr x] @ map Num p @ [Fun peakfunc])) (\<lambda>m.
     bind_err (py_arith (-) (Arr y) m) (\<lambda>r.
       case err of
         None \<Rightarrow> Inr (0, r)
       | Some e \<Rightarrow> bind_err (py_arith (/) r (Arr e)) (\<lambda>q. Inr (0, q))))"

text \<open>
  Lines 797-798 and 823: the residual function \<open>onedpeakfit\<close> hands to the solver,
  \<open>xax\<close> defaulting to \<open>np.arange(len(data))\<close>.
\<close>

definition onedpeakfit_residual ::
  "peakfunc1d \<Rightarrow> real list option \<Rightarrow> real list \<Rightarrow> real list option \<Rightarrow> real list
     \<Rightarrow> error + (int \<times> pyobj)" where
  "onedpeakfit_residual peakfunc xax d err =
     onedpeakfit_mpfitfun peakfunc
       (case xax of None \<Rightarrow> map real [0..<length d] | Some xs \<Rightarrow> xs) d err"

section \<open>Moment estimator\<close>

text \<open>
  Lines 704-716 of \<open>onedmoments\<close> are floating-point statistics of the two arrays
  (means, sums, extrema, standard deviations, quotients that numpy lets become
  infinite or not-a-number). Their results are the fields of \<open>moment_stats\<close>; the
  function computing them is a parameter, and it may raise (numpy does on empty data).
  \<open>s_xmin\<close> and \<open>s_xmax\<close> are \<open>Xax[np.argmin(data)]\<close> and \<open>Xax[np.argmax(data)]\<close>.
  \<open>negamp\<close> is \<open>True\<close>, \<open>False\<close> or \<open>None\<close>.
\<close>

record moment_stats =
  s_height :: pyfloat
  s_Lamplitude :: pyfloat
  s_Lwidth_x :: pyfloat
  s_Hamplitude :: pyfloat
  s_Hwidth_x :: pyfloat
  s_Lstddev :: pyfloat
  s_Hstddev :: pyfloat
  s_xmin :: pyfloat
  s_xmax :: pyfloat

type_synonym stats_fn = "pyfloat list \<Rightarrow> pyfloat list \<Rightarrow> error + moment_stats"

fun float_lt :: "pyfloat \<Rightarrow> pyfloat \<Rightarrow> bool" where
  "float_lt (Fin a) (Fin b) = (a < b)"
| "float_lt (Fin a) PInf = True"
| "float_lt NInf (Fin b) = True"
| "float_lt NInf PInf = True"
| "float_lt a b = False"

definition isnan :: "pyfloat \<Rightarrow> bool" where
  "isnan x = (x = NaN)"

text \<open>Lines 720-728: the branch chosen, as \<open>(xcen, amplitude, width_x)\<close>.\<close>

definition chosen_peak :: "moment_stats \<Rightarrow> bool option \<Rightarrow> pyfloat \<times> pyfloat \<times> pyfloat" where
  "chosen_peak s negamp =
     (if negamp = Some True then (s_xmin s, s_Lamplitude s, s_Lwidth_x s)
      else if negamp = None then
        (if float_lt (s_Hstddev s) (s_Lstddev s)
         then (s_xmax s, s_Hamplitude s, s_Hwidth_x s)
         else (s_xmin s, s_Lamplitude s, s_Lwidth_x s))
      else (s_xmax s, s_Hamplitude s, s_Hwidth_x s))"

text \<open>\<open>onedmoments\<close> with \<open>veryverbose=False\<close>; lines 733-738 validate and assemble.\<close>

definition onedmoments ::
  "stats_fn \<Rightarrow> pyfloat list \<Rightarrow> pyfloat list \<Rightarrow> bool \<Rightarrow> bool option \<Rightarrow> error + pyfloat list" where
  "onedmoments stats Xax d vheight negamp =
     bind_err (stats Xax d) (\<lambda>s.
       case chosen_peak s negamp of (xcen, amplitude_, width) \<Rightarrow>
         if isnan width \<or> isnan (s_height s) \<or> isnan amplitude_ then Inl SomethingIsNan
         else Inr (if vheight then s_height s # [amplitude_, xcen, width]
                   else [amplitude_, xcen, width]))"

section \<open>Default arguments and input relations\<close>

text \<open>The default keyword arguments in the signatures of the three drivers.\<close>

definition peakfit_defaults :: fit_args where
  "peakfit_defaults =
     \<lparr>a_err = None, a_params = [], a_autoderiv = True, a_return_error = False,
      a_circle = False,
      a_fixed = [False, False, False, False, False, False, False],
      a_limitedmin = [False, False, False, False, True, True, True],
      a_limitedmax = [False, False, False, False, False, False, True],
      a_usemoment = [],
      a_minpars = [0, 0, 0, 0, 0, 0, 0],
      a_maxpars = [0, 0, 0, 0, 0, 0, 180],
      a_rotate = True, a_vheight = True, a_returnmp = False, a_returnfitimage = False\<rparr>"

definition mm_fit_defaults :: mm_fit_args where
  "mm_fit_defaults =
     \<lparr>a_err = None, a_params = [], a_autoderiv = True, a_return_error = False,
      a_circle = False,
      a_fixed = [False, False, False, False, False, False],
      a_limitedmin = [False, True, True, True, True, True],
      a_limitedmax = [False, False, False, False, False, True],
      a_usemoment = [],
      a_minpars = [0, 0, 0, 0, 0, 0],
      a_maxpars = [0, 0, 0, 0, 0, 180],
      a_rotate = True, a_vheight = True, a_returnmp = False, a_returnfitimage = False,
      a_max_p = 1, a_max_l = 0, a_minamp = 0, a_maxamp = 2,
      a_limitedampmin = True, a_limitedampmax = False\<rparr>"

definition multipeakfit_defaults :: peak_lists where
  "multipeakfit_defaults =
     \<lparr>l_params = [PyNum 1, PyNum 0, PyNum 1],
      l_fixed = [PyBool False, PyBool False, PyBool False],
      l_limitedmin = [PyBool False, PyBool False, PyBool True],
      l_limitedmax = [PyBool False, PyBool False, PyBool False],
      l_minpars = [PyNum 0, PyNum 0, PyNum 0],
      l_maxpars = [PyNum 0, PyNum 0, PyNum 0]\<rparr>"



section \<open>Properties of the codec\<close>

lemma pop0_alt: "pop0 l = (if length l = 0 then Inl IndexError else Inr (hd l, tl l))"
  by (cases l) auto

lemma amplen_of_pos: "0 < amplen_of p l"
  by (simp add: amplen_of_def)

lemma twodpeak_decode_residual:
  "length v > nfields c r h \<Longrightarrow>
   twodpeak_decode v c r h =
     Inl (ResidualParameters (drop (nfields c r h) v) v c (r \<and> \<not> c) h)"
  by (cases c; cases r; cases h)
     (simp_all add: twodpeak_decode_def nfields_def pop_widths_def pop_rotation_def
        bind_err_def pop0_alt Let_def eval_nat_numeral drop_Suc
        del: length_0_conv length_greater_0_conv)

lemma mm_decode_residual:
  "length v > mm_nfields c r h + amplen_of p l \<Longrightarrow>
   mm_decode v p l c r h =
     Inl (ResidualParameters
            (drop (mm_nfields c r h) (take (length v - amplen_of p l) v)) v c (r \<and> \<not> c) h)"
  by (cases c; cases r; cases h)
     (simp_all add: mm_decode_def mm_nfields_def pop_widths_def pop_rotation_def
        bind_err_def pop0_alt Let_def eval_nat_numeral drop_Suc
        del: length_0_conv length_greater_0_conv)

lemma mm_leftover_one:
  assumes "length v = n + a" and "0 < a"
  shows "drop n (take (length (v @ [x]) - a) (v @ [x])) = [v ! n]"
proof -
  have n: "n < length v" using assms by simp
  have "take (length (v @ [x]) - a) (v @ [x]) = take (Suc n) v"
    using assms by simp
  also have "drop n (take (Suc n) v) = [v ! n]"
    using n by (simp add: take_Suc_conv_app_nth)
  finally show ?thesis .
qed

text \<open>
  Claim C1. Under every combination of circle, rotate and vheight, a vector longer than
  the fields the single-peak decoder pops makes twodpeak raise the residual-parameters
  error, carrying the values left over, the vector as passed and the flags (rotate as
  it stands after the circle override); the multimode decoder does the same for a
  vector longer than its fields plus its mode amplitudes, the values left over being
  what remains of the front part once the amplitudes are cut from the tail. In
  particular one extra trailing value after a complete vector raises the error: the
  single-peak decoder reports that value, the multimode decoder reports the value that
  the shifted tail no longer covers.
\<close>

theorem residual_parameters_raise:
  "(length v > nfields c r h \<longrightarrow>
      twodpeak_decode v c r h =
        Inl (ResidualParameters (drop (nfields c r h) v) v c (r \<and> \<not> c) h))
   \<and> (length v > mm_nfields c r h + amplen_of p l \<longrightarrow>
      mm_decode v p l c r h =
        Inl (ResidualParameters
               (drop (mm_nfields c r h) (take (length v - amplen_of p l) v)) v c (r \<and> \<not> c) h))
   \<and> (length v = nfields c r h \<longrightarrow>
      twodpeak_decode (v @ [x]) c r h =
        Inl (ResidualParameters [x] (v @ [x]) c (r \<and> \<not> c) h))
   \<and> (length v = mm_nfields c r h + amplen_of p l \<longrightarrow>
      mm_decode (v @ [x]) p l c r h =
        Inl (ResidualParameters [v ! mm_nfields c r h] (v @ [x]) c (r \<and> \<not> c) h))"
proof (intro conjI impI)
  assume "length v > nfields c r h"
  then show "twodpeak_decode v c r h =
      Inl (ResidualParameters (drop (nfields c r h) v) v c (r \<and> \<not> c) h)"
    by (rule twodpeak_decode_residual)
next
  assume "length v > mm_nfields c r h + amplen_of p l"
  then show "mm_decode v p l c r h =
      Inl (ResidualParameters
             (drop (mm_nfields c r h) (take (length v - amplen_of p l) v)) v c (r \<and> \<not> c) h)"
    by (rule mm_decode_residual)
next
  assume len: "length v = nfields c r h"
  then have "length (v @ [x]) > nfields c r h" by simp
  from twodpeak_decode_residual [OF this] len
  show "twodpeak_decode (v @ [x]) c r h =
      Inl (ResidualParameters [x] (v @ [x]) c (r \<and> \<not> c) h)"
    by simp
next
  assume len: "length v = mm_nfields c r h + amplen_of p l"
  then have "length (v @ [x]) > mm_nfields c r h + amplen_of p l" by simp
  from mm_decode_residual [OF this] mm_leftover_one [OF len amplen_of_pos]
  show "mm_decode (v @ [x]) p l c r h =
      Inl (ResidualParameters [v ! mm_nfields c r h] (v @ [x]) c (r \<and> \<not> c) h)"
    by simp
qed

theorem residual_parameters_raise_witness:
  "twodpeak_decode [0, 1, 64, 64, 8, 8, 30, 99] False True True =
     Inl (ResidualParameters [99] [0, 1, 64, 64, 8, 8, 30, 99] False True True)
   \<and> mm_decode [0, 64, 64, 8, 8, 30, 1, 2, 99] 1 0 False True True =
     Inl (ResidualParameters [1] [0, 64, 64, 8, 8, 30, 1, 2, 99] False True True)"
  using residual_parameters_raise [where v = "[0, 1, 64, 64, 8, 8, 30]" and c = False
          and r = True and h = True and p = 1 and l = 0 and x = 99]
        residual_parameters_raise [where v = "[0, 64, 64, 8, 8, 30, 1, 2]" and c = False
          and r = True and h = True and p = 1 and l = 0 and x = 99]
  by (simp add: nfields_def mm_nfields_def amplen_of_def)






section \<open>Properties of the fit drivers\<close>

lemma bind_err_Inr_iff: "bind_err m f = Inr y \<longleftrightarrow> (\<exists>x. m = Inr x \<and> f x = Inr y)"
  by (cases m) (auto simp: bind_err_def)

lemma chi2n_of_eq:
  "chi2n_of kind x k =
     Inr (if k = 0 then
            (case kind of
               PythonScalars \<Rightarrow> NaN
             | NumpyScalars \<Rightarrow> (if x = 0 then NaN else if 0 < x then PInf else NInf))
          else Fin (x / of_int k))"
  by (simp add: chi2n_of_def py_truediv_def split: scalar_kind.splits)

lemma postprocess_chi2:
  "postprocess c r res = Inr mp \<Longrightarrow>
     chi2 mp = mp_fnorm res
     \<and> chi2n_of (mp_scalars res) (mp_fnorm res) (mp_dof res) = Inr (chi2n mp)"
  by (auto simp: postprocess_def bind_err_def chi2n_of_eq wrap_last_def
           split: if_splits sum.splits)

lemma postprocess_total:
  "mp_errmsg res = [] \<Longrightarrow> mp_params res \<noteq> [] \<Longrightarrow> \<exists>mp. postprocess c r res = Inr mp"
  by (auto simp: postprocess_def bind_err_def chi2n_of_eq wrap_last_def)

lemma peakfit_mp_solver:
  "peakfit_mp moments mpfit pf d a = Inr mp \<Longrightarrow>
     \<exists>pinfo res. mpfit (mpfitfun pf (a_circle a) (a_rotate a) True d (a_err a)) pinfo = Inr res
        \<and> postprocess (a_circle a) (a_rotate a) res = Inr mp"
  by (auto simp: peakfit_mp_def bind_err_Inr_iff split: if_splits)

lemma mm_fit_mp_solver:
  "mm_laguerregauss2d_fit_mp moments mpfit gl d a = Inr mp \<Longrightarrow>
     \<exists>pinfo res. mpfit (mm_mpfitfun gl (a_max_p a) (a_max_l a) (a_circle a) (a_rotate a)
                          True d (a_err a)) pinfo = Inr res
        \<and> postprocess (a_circle a) (a_rotate a) res = Inr mp"
  by (auto simp: mm_laguerregauss2d_fit_mp_def bind_err_Inr_iff split: if_splits)

text \<open>
  Claim C3 fails on the multimode driver. With the default arguments (rotation on, not
  circular, two modes) and a solver that ends at angle 180 and mode amplitudes 1 and
  200, mm_laguerregauss2d_fit returns the angle 180 as it is and the last amplitude
  reduced modulo 180, to 20: line 517 wraps the last entry of the vector, which in the
  multimode layout is the last mode amplitude and not the angle.
\<close>

theorem mm_fit_wraps_last_amplitude:
  "mm_laguerregauss2d_fit (\<lambda>d c r v. Inr [0, 5, 64, 64, 8, 8, 30])
     (\<lambda>f pinfo. Inr \<lparr>mp_params = [0, 64, 64, 8, 8, 180, 1, 200],
          mp_perror = [0, 0, 0, 0, 0, 0, 0, 0],
          mp_fnorm = 5, mp_dof = 1, mp_status = 1, mp_errmsg = [],
          mp_scalars = NumpyScalars\<rparr>)
     gl [[(1, False)]] mm_fit_defaults
   = Inr (Plain (ReturnParams [0, 64, 64, 8, 8, 180, 1, 20]))"
  by (simp add: mm_laguerregauss2d_fit_def mm_laguerregauss2d_fit_mp_def fit_value_of_def
      mm_parinfo_def mm_initial_params_def mm_fit_defaults_def pop_at_def force_vheight_def
      bind_err_def clamp_upper_def clamp_lower_def mk_parinfo_def mm_layout_def clamp_amp_def
      py_trunc_def mm_amp_parinfo_def modenum_def Let_def upt_rec postprocess_def
      wrap_last_def py_mod_def chi2n_of_def py_truediv_def)

text \<open>
  Claim C7 fails on the code. With the default arguments and moments that estimate an
  amplitude of 5, the amplitudes appended to the parameter vector are 5 for mode
  (0, 0) and 0 for mode (1, 0), but both amplitude records carry the value 0: every
  record reads \<open>params[n+1]\<close>, the second mode's amplitude, whatever its own index.
\<close>

theorem mm_amplitude_records_share_one_value:
  "map_sum id (map (\<lambda>q. (p_n q, p_parname q, p_value q)) \<circ> drop 6 \<circ> snd)
      (mm_parinfo (\<lambda>d c r v. Inr [0, 5, 64, 64, 8, 8, 30]) [[(1, False)]] mm_fit_defaults)
   = Inr [(6, MODEAMP (0, 0), 0), (7, MODEAMP (1, 0), 0)]
   \<and> map_sum id (drop 6 \<circ> fst)
      (mm_parinfo (\<lambda>d c r v. Inr [0, 5, 64, 64, 8, 8, 30]) [[(1, False)]] mm_fit_defaults)
   = Inr [5, 0]"
  by (simp add: mm_parinfo_def mm_initial_params_def mm_fit_defaults_def pop_at_def
      force_vheight_def bind_err_def clamp_upper_def clamp_lower_def mk_parinfo_def
      mm_layout_def clamp_amp_def py_trunc_def mm_amp_parinfo_def modenum_def Let_def upt_rec)

lemma fit_chi2:
  assumes "peakfit_mp moments mpfit pf d a = Inr mp
           \<or> mm_laguerregauss2d_fit_mp moments mpfit gl d b = Inr mp"
  shows "\<exists>f pinfo res. mpfit f pinfo = Inr res \<and> chi2 mp = mp_fnorm res
           \<and> chi2n_of (mp_scalars res) (mp_fnorm res) (mp_dof res) = Inr (chi2n mp)"
  using assms peakfit_mp_solver [of moments mpfit pf d a mp]
    mm_fit_mp_solver [of moments mpfit gl d b mp] postprocess_chi2
  by blast

text \<open>
  Claim C8 fails on the code when the solver's scalars are numpy's. With the default
  arguments, returnmp set, and a solver that ends with fnorm 5 and dof 0 as numpy
  scalars, peakfit returns the solver's object with chi2 = 5 and chi2n infinite: the
  division does not raise, so the handler that would store not-a-number is not
  reached. (With plain Python scalars the handler is reached and chi2n is
  not-a-number; for a non-zero dof chi2n is the quotient in either case; no exception
  leaves the division in any case: see the lemma chi2n_of_eq.)
\<close>

theorem peakfit_chi2n_infinite_at_zero_dof:
  "peakfit (\<lambda>d c r v. Inr [])
     (\<lambda>f pinfo. Inr \<lparr>mp_params = [0, 1, 64, 64, 8, 8, 30],
          mp_perror = [0, 0, 0, 0, 0, 0, 0],
          mp_fnorm = 5, mp_dof = 0, mp_status = 1, mp_errmsg = [],
          mp_scalars = NumpyScalars\<rparr>)
     pf [[(1, False)]]
     (peakfit_defaults\<lparr>a_params := [0, 1, 64, 64, 8, 8, 30], a_returnmp := True\<rparr>)
   = Inr (Plain (ReturnMP
       \<lparr>mp_params = [0, 1, 64, 64, 8, 8, 30], mp_perror = [0, 0, 0, 0, 0, 0, 0],
        mp_fnorm = 5, mp_dof = 0, mp_status = 1, mp_errmsg = [],
        mp_scalars = NumpyScalars, chi2 = 5, chi2n = PInf\<rparr>))"
  by (simp add: peakfit_def fit_value_of_def peakfit_mp_def peakfit_defaults_def
      initial_params_def force_vheight_def bind_err_def clamp_upper_def clamp_lower_def
      mk_parinfo_def peakfit_layout_def postprocess_def wrap_last_def py_mod_def
      chi2n_of_def py_truediv_def)

section \<open>Properties of the multi-peak driver\<close>

text \<open>
  Claim C6 fails on the code. In a call with two peaks where limitedmin and limitedmax
  are both passed as the empty list, limitedmin is not reset to its own default
  (False, False, True per peak) but to all False: the loop recognises the list it is
  resetting by comparing values, and at that point limitedmin compares equal to the
  limitedmax that has not been normalised yet.
\<close>

theorem normalize_resets_limitedmin_to_wrong_default:
  "l_limitedmin (normalize_lists
     (multipeakfit_defaults\<lparr>l_limitedmin := [], l_limitedmax := []\<rparr>) 2)
   = [PyBool False, PyBool False, PyBool False, PyBool False, PyBool False, PyBool False]"
  by (simp add: normalize_lists_def normalized_def py_list_eq_def py_times_def Let_def
        multipeakfit_defaults_def eval_nat_numeral)

section \<open>Properties of the one-dimensional drivers\<close>

lemma onedpeak_wrong_order:
  "onedpeak (Arr x # map Num p @ [Fun pf]) = Inl TypeError"
proof (cases p)
  case Nil
  then show ?thesis by simp
next
  case c1: (Cons a p1)
  show ?thesis
  proof (cases p1)
    case Nil
    with c1 show ?thesis by simp
  next
    case c2: (Cons b p2)
    show ?thesis
    proof (cases p2)
      case Nil
      with c1 c2 show ?thesis by simp
    next
      case c3: (Cons c p3)
      show ?thesis
      proof (cases p3)
        case Nil
        with c1 c2 c3 show ?thesis by simp
      next
        case c4: (Cons e p4)
        show ?thesis
        proof (cases p4)
          case Nil
          with c1 c2 c3 c4 show ?thesis by (simp add: bind_err_def)
        next
          case (Cons g p5)
          with c1 c2 c3 c4 show ?thesis by (cases p5) simp_all
        qed
      qed
    qed
  qed
qed

text \<open>
  Claim C9. Once the statistics are computed, onedmoments raises its validation error
  exactly when the width, the height or the amplitude it selected is not-a-number;
  otherwise it returns the height (only if vheight), the amplitude, the centre and the
  width, in this order, and no error.
\<close>

theorem onedmoments_nan_validation:
  assumes "stats Xax d = Inr s" and "chosen_peak s negamp = (xcen, amp, width)"
  shows "(onedmoments stats Xax d vheight negamp = Inl SomethingIsNan
            \<longleftrightarrow> isnan width \<or> isnan (s_height s) \<or> isnan amp)
       \<and> (\<not> (isnan width \<or> isnan (s_height s) \<or> isnan amp) \<longrightarrow>
            onedmoments stats Xax d vheight negamp =
              Inr (if vheight then [s_height s, amp, xcen, width] else [amp, xcen, width]))"
  using assms by (auto simp: onedmoments_def bind_err_def)

theorem onedmoments_nan_validation_witness:
  "onedmoments (\<lambda>X d. Inr \<lparr>s_height = Fin 0, s_Lamplitude = Fin 0, s_Lwidth_x = NaN,
        s_Hamplitude = Fin 1, s_Hwidth_x = Fin 2, s_Lstddev = Fin 3, s_Hstddev = Fin 1,
        s_xmin = Fin 0, s_xmax = Fin 4\<rparr>) [Fin 0, Fin 1] [Fin 0, Fin 1] True None
     = Inr [Fin 0, Fin 1, Fin 4, Fin 2]
   \<and> onedmoments (\<lambda>X d. Inr \<lparr>s_height = Fin 0, s_Lamplitude = Fin 0, s_Lwidth_x = NaN,
        s_Hamplitude = Fin 1, s_Hwidth_x = Fin 2, s_Lstddev = Fin 3, s_Hstddev = Fin 1,
        s_xmin = Fin 0, s_xmax = Fin 4\<rparr>) [Fin 0, Fin 1] [Fin 0, Fin 1] True (Some True)
     = Inl SomethingIsNan"
  using onedmoments_nan_validation [where stats = "\<lambda>X d. Inr \<lparr>s_height = Fin 0,
          s_Lamplitude = Fin 0, s_Lwidth_x = NaN,
          s_Hamplitude = Fin 1, s_Hwidth_x = Fin 2, s_Lstddev = Fin 3, s_Hstddev = Fin 1,
          s_xmin = Fin 0, s_xmax = Fin 4\<rparr>" and Xax = "[Fin 0, Fin 1]" and d = "[Fin 0, Fin 1]"
          and negamp = None and xcen = "Fin 4" and amp = "Fin 1" and width = "Fin 2"
          and vheight = True]
        onedmoments_nan_validation [where stats = "\<lambda>X d. Inr \<lparr>s_height = Fin 0,
          s_Lamplitude = Fin 0, s_Lwidth_x = NaN,
          s_Hamplitude = Fin 1, s_Hwidth_x = Fin 2, s_Lstddev = Fin 3, s_Hstddev = Fin 1,
          s_xmin = Fin 0, s_xmax = Fin 4\<rparr>" and Xax = "[Fin 0, Fin 1]" and d = "[Fin 0, Fin 1]"
          and negamp = "Some True" and xcen = "Fin 0" and amp = "Fin 0" and width = NaN
          and vheight = True]
  by (simp add: chosen_peak_def isnan_def)

text \<open>
  Claim C10. The residual function that onedpeakfit hands to the solver raises a
  TypeError on every numeric parameter vector, whatever the peak shape, the abscissa,
  the data and the errors: it calls onedpeak with the abscissa array where the peak
  shape belongs, so with four parameters the array is applied as a function, and with
  any other number of parameters the call has the wrong number of arguments.
\<close>

theorem onedpeakfit_residual_always_raises:
  "onedpeakfit_residual pf xax d err p = Inl TypeError"
  by (simp add: onedpeakfit_residual_def onedpeakfit_mpfitfun_def onedpeak_wrong_order
        bind_err_def)

section \<open>Mask independence of the residual\<close>
















section \<open>The failure condition of the multi-peak driver\<close>











end
